theory Spec2Isabelle
  imports Main
begin

section \<open>The metering server: data model\<close>

text \<open>
  The server (\<^verbatim>\<open>server.js\<close>) keeps its durable state in five MySQL tables and
  its binary artifacts in an R2 bucket. Beside them it declares five in-process arrays,
  the mock database, read only under the module variable \<^verbatim>\<open>useMockDb\<close>.
  A table is the list of its rows in insertion order; a nullable column that a modelled
  request can leave empty is an \<open>option\<close>.

  A row of \<^verbatim>\<open>users\<close>. The password hash is left out: no modelled statement reads
  it. The balance column \<^verbatim>\<open>tokens BIGINT DEFAULT 100000\<close> is an unbounded integer:
  the model covers requests whose numeric fields are integers and balances that are not
  NULL, within the range where the JavaScript numbers that carry them are exact.
\<close>

record user_row =
  user_id :: nat
  username :: string
  display_name :: "string option"
  role :: "string option"
  is_approved :: "bool option"
  expiration_date :: "int option"
  contact_email :: "string option"
  mobile :: "string option"
  tokens :: int
  user_created_at :: int

text \<open>
  A row of \<^verbatim>\<open>usage_logs (user_id, feature_name, token_count, created_at)\<close>; its
  AUTO_INCREMENT id is never read and is left out.
\<close>

record usage_row =
  log_user_id :: nat
  feature_name :: "string option"
  token_count :: int
  log_created_at :: int

text \<open>
  What a response hands out as the address of an image: a string stored or received as it
  is (a data URI, a bare key), or the result of \<^verbatim>\<open>getSignedUrl\<close> for a bucket and a
  key, which carries its lifetime in seconds.
\<close>

datatype url = Raw string | Signed string string nat

record image_row =
  image_id :: string
  image_user_id :: nat
  prompt :: string
  r2_key :: string
  level :: string
  style :: string
  language :: string
  image_created_at :: int

text \<open>An element of \<^verbatim>\<open>mockImages\<close> has the columns and a \<^verbatim>\<open>data_url\<close>.\<close>

record mock_image = image_row +
  data_url :: url

record chat_session_row =
  session_id :: string
  session_user_id :: nat
  title :: string
  session_created_at :: int
  updated_at :: int

record chat_message_row =
  message_id :: int
  msg_session_id :: string
  msg_role :: string
  content :: string
  msg_created_at :: int

text \<open>
  An element of \<^verbatim>\<open>mockUsers\<close>, reduced to what the modelled handlers read. The objects
  pushed by the registration routes carry no \<^verbatim>\<open>tokens\<close> property, so the property is
  \<^verbatim>\<open>undefined\<close> until arithmetic turns it into \<^verbatim>\<open>NaN\<close>; both are
  \<open>None\<close> here.
\<close>

record mock_user =
  mock_id :: nat
  mock_tokens :: "int option"

record database =
  users :: "user_row list"
  users_next_id :: nat
  images :: "image_row list"
  chat_sessions :: "chat_session_row list"
  chat_messages :: "chat_message_row list"
  chat_messages_next_id :: nat
  usage_logs :: "usage_row list"

text \<open>The bucket is the list of its objects, key and body, newest first.\<close>

record server_state =
  db :: database
  r2_objects :: "(string \<times> string) list"
  mockUsers :: "mock_user list"
  mockImages :: "mock_image list"
  mockChatSessions :: "chat_session_row list"
  mockChatMessages :: "chat_message_row list"
  mockUsageLogs :: "usage_row list"

text \<open>
  \<^verbatim>\<open>let useMockDb = false;\<close> is the only place of the program that gives the variable
  a value: no statement assigns it afterwards.
\<close>

definition useMockDb :: bool where
  "useMockDb = False"

text \<open>\<^verbatim>\<open>req.user\<close>, the payload of the verified bearer token.\<close>

record req_user =
  uid :: nat
  urole :: string

text \<open>
  The awaited calls on the connection pool; \<open>Query k\<close> is the \<open>k\<close>-th
  \<^verbatim>\<open>query\<close> call in the text of a handler. Any of them can reject for a reason
  outside the request (store unreachable, connection lost, lock timeout);
  \<open>fails c\<close> says that call \<open>c\<close> of the request at hand rejects so. What a
  statement refuses because of the values it is given is part of the statement below.
\<close>

datatype db_call = GetConnection | BeginTransaction | Query nat | Commit

datatype error = Db_rejected db_call | Fk_violation | Pk_violation | Out_of_range | Type_error

text \<open>
  What the handler does with the response: a 200 with a JSON body, an error status, or
  nothing at all because the handler's promise rejected outside every \<^verbatim>\<open>try\<close>.
\<close>

datatype 'a reply = Json 'a | Status nat | Rejected

definition no_fault :: "'c \<Rightarrow> bool" where
  "no_fault c = False"

section \<open>The SQL statements of the ledger\<close>

text \<open>
  The column \<^verbatim>\<open>token_count INT DEFAULT 0\<close> of \<^verbatim>\<open>usage_logs\<close> holds the
  signed 32-bit integers.
\<close>

definition fits_int :: "int \<Rightarrow> bool" where
  "fits_int n = (- 2147483648 \<le> n \<and> n \<le> 2147483647)"

text \<open>
  \<^verbatim>\<open>INSERT INTO usage_logs (user_id, feature_name, token_count, created_at) VALUES (?, ?, ?, ?)\<close>.
  The statement is refused for a count outside the range of the column (the server runs
  in MySQL's default strict mode, which raises an out-of-range error instead of clipping
  the value) and, by \<^verbatim>\<open>FOREIGN KEY (user_id) REFERENCES users(id)\<close>, for an id with
  no row in \<^verbatim>\<open>users\<close>.
\<close>

definition insert_usage_log ::
  "nat \<Rightarrow> string option \<Rightarrow> int \<Rightarrow> int \<Rightarrow> database \<Rightarrow> error + database" where
  "insert_usage_log i f n now d =
     (if \<not> fits_int n then Inl Out_of_range
      else (case find (\<lambda>r. user_id r = i) (users d) of
        None \<Rightarrow> Inl Fk_violation
      | Some _ \<Rightarrow> Inr (d\<lparr>usage_logs := usage_logs d @
          [\<lparr>log_user_id = i, feature_name = f, token_count = n, log_created_at = now\<rparr>]\<rparr>)))"

text \<open>\<^verbatim>\<open>UPDATE users SET tokens = tokens - ? WHERE id = ?\<close>\<close>

definition deduct_tokens :: "int \<Rightarrow> nat \<Rightarrow> database \<Rightarrow> database" where
  "deduct_tokens n i d =
     d\<lparr>users := map (\<lambda>r. if user_id r = i then r\<lparr>tokens := tokens r - n\<rparr> else r) (users d)\<rparr>"

text \<open>\<^verbatim>\<open>SELECT tokens FROM users WHERE id = ?\<close>: the matching rows.\<close>

definition select_tokens :: "nat \<Rightarrow> database \<Rightarrow> int list" where
  "select_tokens i d = map tokens (filter (\<lambda>r. user_id r = i) (users d))"

text \<open>\<^verbatim>\<open>rows[0].tokens\<close> throws a TypeError when no row matched.\<close>

definition first_row :: "'a list \<Rightarrow> error + 'a" where
  "first_row rows = (case rows of [] \<Rightarrow> Inl Type_error | r # _ \<Rightarrow> Inr r)"

section \<open>POST /api/usage\<close>

record usage_body =
  feature :: "string option"
  tokenCount :: "int option"

text \<open>
  \<^verbatim>\<open>tokenCount || 0\<close> on an integer or an absent field: \<^verbatim>\<open>undefined\<close> and
  the falsy integer 0 both give 0, any other integer is kept.
\<close>

definition or0 :: "int option \<Rightarrow> int" where
  "or0 tc = (case tc of None \<Rightarrow> 0 | Some n \<Rightarrow> n)"

text \<open>
  The body of the response: \<^verbatim>\<open>{ success: true, remainingTokens }\<close> or
  \<^verbatim>\<open>{ success: true }\<close>.
\<close>

datatype usage_json = Success_remaining "int option" | Success_only

text \<open>
  \<^verbatim>\<open>mockUsers.find(u => u.id === req.user.id)\<close> followed by
  \<^verbatim>\<open>user.tokens -= x\<close> changes the first matching element in place.
\<close>

fun update_first :: "('a \<Rightarrow> bool) \<Rightarrow> ('a \<Rightarrow> 'a) \<Rightarrow> 'a list \<Rightarrow> 'a list" where
  "update_first p f [] = []"
| "update_first p f (x # xs) = (if p x then f x # xs else x # update_first p f xs)"

definition usage_mock ::
  "req_user \<Rightarrow> usage_body \<Rightarrow> int \<Rightarrow> server_state \<Rightarrow> usage_json reply \<times> server_state" where
  "usage_mock u b now st =
     (let st1 = st\<lparr>mockUsageLogs := mockUsageLogs st @
            [\<lparr>log_user_id = uid u, feature_name = feature b,
              token_count = or0 (tokenCount b), log_created_at = now\<rparr>]\<rparr>
      in (case find (\<lambda>m. mock_id m = uid u) (mockUsers st1) of
            Some m \<Rightarrow>
              (let t = map_option (\<lambda>t. t - or0 (tokenCount b)) (mock_tokens m)
               in (Json (Success_remaining t),
                   st1\<lparr>mockUsers := update_first (\<lambda>m. mock_id m = uid u)
                          (\<lambda>m. m\<lparr>mock_tokens := t\<rparr>) (mockUsers st1)\<rparr>))
          | None \<Rightarrow> (Json Success_only, st1)))"

text \<open>
  The statements between \<^verbatim>\<open>beginTransaction\<close> and \<^verbatim>\<open>commit\<close>, on the
  connection's view of the database. \<open>Inl\<close> is a throw inside the inner
  \<^verbatim>\<open>try\<close>.
\<close>

definition usage_transaction ::
  "(db_call \<Rightarrow> bool) \<Rightarrow> req_user \<Rightarrow> usage_body \<Rightarrow> int \<Rightarrow> database \<Rightarrow> error + (database \<times> int)" where
  "usage_transaction fails u b now d =
     (if fails BeginTransaction then Inl (Db_rejected BeginTransaction)
      else if fails (Query 1) then Inl (Db_rejected (Query 1))
      else (case insert_usage_log (uid u) (feature b) (or0 (tokenCount b)) now d of
        Inl e \<Rightarrow> Inl e
      | Inr d1 \<Rightarrow>
          (if fails (Query 2) then Inl (Db_rejected (Query 2))
           else (let d2 = deduct_tokens (or0 (tokenCount b)) (uid u) d1 in
             (if fails (Query 3) then Inl (Db_rejected (Query 3))
              else (case first_row (select_tokens (uid u) d2) of
                Inl e \<Rightarrow> Inl e
              | Inr remainingTokens \<Rightarrow>
                  (if fails Commit then Inl (Db_rejected Commit)
                   else Inr (d2, remainingTokens))))))))"

text \<open>
  The handler. A throw inside the transaction reaches \<^verbatim>\<open>connection.rollback()\<close>,
  which discards the connection's changes, and is rethrown to the outer \<^verbatim>\<open>catch\<close>,
  which answers 500; so does a rejected \<^verbatim>\<open>pool.getConnection()\<close>.
\<close>

definition post_usage ::
  "(db_call \<Rightarrow> bool) \<Rightarrow> req_user \<Rightarrow> usage_body \<Rightarrow> int \<Rightarrow> server_state
     \<Rightarrow> usage_json reply \<times> server_state" where
  "post_usage fails u b now st =
     (if useMockDb then usage_mock u b now st
      else if fails GetConnection then (Status 500, st)
      else (case usage_transaction fails u b now (db st) of
        Inl e \<Rightarrow> (Status 500, st)
      | Inr (d, remainingTokens) \<Rightarrow>
          (Json (Success_remaining (Some remainingTokens)), st\<lparr>db := d\<rparr>)))"

section \<open>PUT /api/admin/users/:id\<close>

record admin_body =
  displayName :: "string option"
  new_role :: "string option"
  isApproved :: "bool option"
  expirationDate :: "int option"
  contactEmail :: "string option"
  new_mobile :: "string option"
  new_tokens :: int

text \<open>
  The feature name of the row the handler logs, as the UTF-8 bytes of the source literal
  (seven CJK characters that read "administrator manual top-up").
\<close>

definition ADMIN_TOPUP :: string where
  "ADMIN_TOPUP =
     [CHR 0xE7, CHR 0xAE, CHR 0xA1, CHR 0xE7, CHR 0x90, CHR 0x86, CHR 0xE5,
      CHR 0x93, CHR 0xA1, CHR 0xE6, CHR 0x89, CHR 0x8B, CHR 0xE5, CHR 0x8B,
      CHR 0x95, CHR 0xE5, CHR 0x85, CHR 0x85, CHR 0xE5, CHR 0x80, CHR 0xBC]"

text \<open>
  \<^verbatim>\<open>UPDATE users SET display_name = ?, role = ?, is_approved = ?, expiration_date = ?,
  contact_email = ?, mobile = ?, tokens = ? WHERE id = ?\<close>
\<close>

definition update_user :: "nat \<Rightarrow> admin_body \<Rightarrow> database \<Rightarrow> database" where
  "update_user i b d =
     d\<lparr>users := map (\<lambda>r. if user_id r = i
        then r\<lparr>display_name := displayName b, role := new_role b,
               is_approved := isApproved b, expiration_date := expirationDate b,
               contact_email := contactEmail b, mobile := new_mobile b,
               tokens := new_tokens b\<rparr>
        else r) (users d)\<rparr>"

definition admin_transaction ::
  "(db_call \<Rightarrow> bool) \<Rightarrow> nat \<Rightarrow> admin_body \<Rightarrow> int \<Rightarrow> database \<Rightarrow> error + database" where
  "admin_transaction fails i b now d =
     (if fails BeginTransaction then Inl (Db_rejected BeginTransaction)
      else if fails (Query 1) then Inl (Db_rejected (Query 1))
      else (case first_row (select_tokens i d) of
        Inl e \<Rightarrow> Inl e
      | Inr currentTokens \<Rightarrow>
          (let tokenChange = new_tokens b - currentTokens in
           (if fails (Query 2) then Inl (Db_rejected (Query 2))
            else (let d1 = update_user i b d in
              (if tokenChange > 0 then
                 (if fails (Query 3) then Inl (Db_rejected (Query 3))
                  else (case insert_usage_log i (Some ADMIN_TOPUP) tokenChange now d1 of
                    Inl e \<Rightarrow> Inl e
                  | Inr d2 \<Rightarrow>
                      (if fails Commit then Inl (Db_rejected Commit) else Inr d2)))
               else if fails Commit then Inl (Db_rejected Commit)
               else Inr d1))))))"

text \<open>
  The handler has no mock branch. \<^verbatim>\<open>pool.getConnection()\<close> is awaited before the
  \<^verbatim>\<open>try\<close>, so its rejection is caught by nothing in the handler and no response is
  written. The path parameter \<^verbatim>\<open>:id\<close> is taken as the number it denotes.
\<close>

definition put_admin_user ::
  "(db_call \<Rightarrow> bool) \<Rightarrow> req_user \<Rightarrow> nat \<Rightarrow> admin_body \<Rightarrow> int \<Rightarrow> server_state
     \<Rightarrow> unit reply \<times> server_state" where
  "put_admin_user fails u i b now st =
     (if urole u \<noteq> ''admin'' then (Status 403, st)
      else if fails GetConnection then (Rejected, st)
      else (case admin_transaction fails i b now (db st) of
        Inl e \<Rightarrow> (Status 500, st)
      | Inr d \<Rightarrow> (Json (), st\<lparr>db := d\<rparr>)))"

text \<open>
  The account's current token balance: what
  \<^verbatim>\<open>SELECT tokens FROM users WHERE id = ?\<close> and \<^verbatim>\<open>rows[0].tokens\<close> read.
\<close>

definition balance :: "nat \<Rightarrow> server_state \<Rightarrow> int option" where
  "balance i st = (case select_tokens i (db st) of [] \<Rightarrow> None | t # _ \<Rightarrow> Some t)"

section \<open>Start-up: initDb\<close>





section \<open>Chat messages\<close>

record message_body =
  body_session_id :: string
  body_role :: string
  body_content :: string
  body_created_at :: int

text \<open>
  \<^verbatim>\<open>INSERT INTO chat_messages (session_id, role, content, created_at) VALUES (?, ?, ?, ?)\<close>,
  refused by \<^verbatim>\<open>FOREIGN KEY (session_id) REFERENCES chat_sessions(id)\<close> when no such
  session exists.
\<close>

definition insert_chat_message :: "message_body \<Rightarrow> database \<Rightarrow> error + database" where
  "insert_chat_message b d =
     (case find (\<lambda>s. session_id s = body_session_id b) (chat_sessions d) of
        None \<Rightarrow> Inl Fk_violation
      | Some _ \<Rightarrow> Inr (d\<lparr>chat_messages := chat_messages d @
            [\<lparr>message_id = int (chat_messages_next_id d),
              msg_session_id = body_session_id b, msg_role = body_role b,
              content = body_content b, msg_created_at = body_created_at b\<rparr>],
          chat_messages_next_id := Suc (chat_messages_next_id d)\<rparr>))"

text \<open>\<^verbatim>\<open>UPDATE chat_sessions SET updated_at = ? WHERE id = ?\<close>\<close>

definition touch_session :: "int \<Rightarrow> string \<Rightarrow> database \<Rightarrow> database" where
  "touch_session t sid d =
     d\<lparr>chat_sessions := map (\<lambda>s. if session_id s = sid then s\<lparr>updated_at := t\<rparr> else s)
        (chat_sessions d)\<rparr>"

text \<open>
  POST /api/chat/messages. The two statements go to the pool one after the other, outside
  any transaction. \<open>now\<close> is the \<^verbatim>\<open>Date.now()\<close> the mock branch uses as id.
\<close>

definition post_chat_message ::
  "(db_call \<Rightarrow> bool) \<Rightarrow> req_user \<Rightarrow> message_body \<Rightarrow> int \<Rightarrow> server_state
     \<Rightarrow> unit reply \<times> server_state" where
  "post_chat_message fails u b now st =
     (if useMockDb then
        (Json (), st\<lparr>mockChatMessages := mockChatMessages st @
            [\<lparr>message_id = now, msg_session_id = body_session_id b, msg_role = body_role b,
              content = body_content b, msg_created_at = body_created_at b\<rparr>],
          mockChatSessions := update_first (\<lambda>s. session_id s = body_session_id b)
            (\<lambda>s. s\<lparr>updated_at := body_created_at b\<rparr>) (mockChatSessions st)\<rparr>)
      else if fails (Query 1) then (Status 500, st)
      else (case insert_chat_message b (db st) of
        Inl e \<Rightarrow> (Status 500, st)
      | Inr d1 \<Rightarrow>
          (if fails (Query 2) then (Status 500, st\<lparr>db := d1\<rparr>)
           else (Json (), st\<lparr>db := touch_session (body_created_at b) (body_session_id b) d1\<rparr>))))"

record message_view =
  view_id :: int
  view_role :: string
  view_content :: string
  view_timestamp :: int

definition message_json :: "chat_message_row \<Rightarrow> message_view" where
  "message_json r = \<lparr>view_id = message_id r, view_role = msg_role r,
     view_content = content r, view_timestamp = msg_created_at r\<rparr>"

text \<open>
  GET /api/chat/messages/:sessionId. \<^verbatim>\<open>ORDER BY created_at ASC\<close> and the mock branch's
  \<^verbatim>\<open>sort\<close> are the stable \<open>sort_key\<close>.
\<close>

definition get_chat_messages ::
  "(db_call \<Rightarrow> bool) \<Rightarrow> req_user \<Rightarrow> string \<Rightarrow> server_state
     \<Rightarrow> message_view list reply \<times> server_state" where
  "get_chat_messages fails u sessionId st =
     (if useMockDb then
        (case find (\<lambda>s. session_id s = sessionId) (mockChatSessions st) of
           None \<Rightarrow> (Status 403, st)
         | Some session \<Rightarrow>
             (if session_user_id session \<noteq> uid u then (Status 403, st)
              else (Json (map message_json (sort_key msg_created_at
                      (filter (\<lambda>m. msg_session_id m = sessionId) (mockChatMessages st)))), st)))
      else if fails (Query 1) then (Status 500, st)
      else (case filter (\<lambda>s. session_id s = sessionId) (chat_sessions (db st)) of
        [] \<Rightarrow> (Status 403, st)
      | session # _ \<Rightarrow>
          (if session_user_id session \<noteq> uid u then (Status 403, st)
           else if fails (Query 2) then (Status 500, st)
           else (Json (map message_json (sort_key msg_created_at
                   (filter (\<lambda>m. msg_session_id m = sessionId) (chat_messages (db st))))), st))))"

section \<open>Images and signed URLs\<close>


datatype r2_call = PutObject | SignUrl

text \<open>
  \<^verbatim>\<open>getSignedUrl(r2, new GetObjectCommand({ Bucket, Key }), { expiresIn })\<close>: the
  presigner computes the URL from the client's credentials and its arguments.
\<close>

definition getSignedUrl :: "string \<Rightarrow> string \<Rightarrow> nat \<Rightarrow> url" where
  "getSignedUrl bucket key expiresIn = Signed bucket key expiresIn"

text \<open>\<^verbatim>\<open>s.includes(sub)\<close> and \<^verbatim>\<open>s.startsWith(sub)\<close>\<close>

definition startsWith :: "string \<Rightarrow> string \<Rightarrow> bool" where
  "startsWith sub s = (take (length sub) s = sub)"

fun includes_str :: "string \<Rightarrow> string \<Rightarrow> bool" where
  "includes_str sub [] = (sub = [])"
| "includes_str sub (c # cs) = (startsWith sub (c # cs) \<or> includes_str sub cs)"

text \<open>
  \<^verbatim>\<open>s.split(sep)[1]\<close>: what follows the first occurrence of the separator, up to the
  next one; \<^verbatim>\<open>undefined\<close> when the separator does not occur.
\<close>

fun after_first :: "string \<Rightarrow> string \<Rightarrow> string option" where
  "after_first sep [] = (if sep = [] then Some [] else None)"
| "after_first sep (c # cs) =
     (if startsWith sep (c # cs) then Some (drop (length sep) (c # cs)) else after_first sep cs)"

fun before_first :: "string \<Rightarrow> string \<Rightarrow> string" where
  "before_first sep [] = []"
| "before_first sep (c # cs) =
     (if startsWith sep (c # cs) then [] else c # before_first sep cs)"

definition split_second :: "string \<Rightarrow> string \<Rightarrow> string option" where
  "split_second sep s = map_option (before_first sep) (after_first sep s)"




text \<open>
  The payload handed to the bucket. \<^verbatim>\<open>Buffer.from(base64Data, 'base64')\<close> is not
  decoded here: an object's body is its base64 text.
\<close>

definition base64Data :: "string \<Rightarrow> string" where
  "base64Data data =
     (if includes_str ''base64,'' data
      then (case split_second ''base64,'' data of None \<Rightarrow> data | Some piece \<Rightarrow> piece)
      else data)"


text \<open>
  \<^verbatim>\<open>process.env.R2_BUCKET_NAME\<close> as the handlers test it: an unset variable and an
  empty one are both falsy.
\<close>

definition configured :: "string option \<Rightarrow> string option" where
  "configured v = (case v of None \<Rightarrow> None | Some name \<Rightarrow> if name = [] then None else Some name)"

text \<open>
  The inner \<^verbatim>\<open>try\<close> of POST /api/images: upload, then sign for 604800 seconds. Its
  \<^verbatim>\<open>catch\<close> only warns ("R2 Upload failed, using local data uri"), and the URL stays
  the data URI the request carried.
\<close>

definition upload_and_sign ::
  "string option \<Rightarrow> (r2_call \<Rightarrow> bool) \<Rightarrow> string \<Rightarrow> string \<Rightarrow> server_state \<Rightarrow> url \<times> server_state" where
  "upload_and_sign bucket r2_fails key data st =
     (case configured bucket of
        None \<Rightarrow> (Raw data, st)
      | Some name \<Rightarrow>
          (if r2_fails PutObject then (Raw data, st)
           else (let st1 = st\<lparr>r2_objects := (key, base64Data data) # r2_objects st\<rparr> in
             (if r2_fails SignUrl then (Raw data, st1)
              else (getSignedUrl name key 604800, st1)))))"








section \<open>The client: handleGenerate\<close>

record research_result =
  imagePrompt :: string
  facts :: "string list"
  usage :: "int option"

record ai_response =
  ai_content :: string
  ai_usage :: int



text \<open>The requests the component issues, in order.\<close>

datatype call = Research | GenerateImage | SaveUserImage | LogUsage

text \<open>
  Everything outside the component that one run of \<^verbatim>\<open>handleGenerate\<close> meets: what the
  two gateway requests come back with (\<open>Inl\<close>: the request threw, with its message),
  which of the two requests to this server never reach their handler (\<^verbatim>\<open>fetch\<close>
  throws, or the body parser turns the request away), the token in local storage, the
  server's \<^verbatim>\<open>jwt.verify\<close>, its bucket setting, which calls to the bucket and the
  database reject, and the clocks read on the way.
\<close>

record world =
  research_reply :: "string + research_result"
  generate_reply :: "string + ai_response"
  link_down :: "call \<Rightarrow> bool"
  localStorage_token :: "string option"
  jwt_verify :: "string \<Rightarrow> req_user option"
  R2_BUCKET_NAME :: "string option"
  r2_fails :: "r2_call \<Rightarrow> bool"
  images_fails :: "db_call \<Rightarrow> bool"
  usage_fails :: "db_call \<Rightarrow> bool"
  now_id :: nat
  now_timestamp :: int
  now_usage :: int

text \<open>
  The middleware \<^verbatim>\<open>authenticateToken\<close> on the header \<^verbatim>\<open>getHeaders\<close> builds
  from the stored token (\<^verbatim>\<open>Bearer\<close>, a space, the token; the empty string when
  there is none). The middleware takes \<^verbatim>\<open>authHeader.split(' ')[1]\<close>, the token up
  to its first space: 401 when that is empty, 403 when verification fails.
\<close>

definition authenticateToken :: "(string \<Rightarrow> req_user option) \<Rightarrow> string option \<Rightarrow> nat + req_user" where
  "authenticateToken verify stored =
     (case stored of
        None \<Rightarrow> Inl 401
      | Some t \<Rightarrow>
          (let bearer = takeWhile (\<lambda>c. c \<noteq> CHR '' '') t in
           if bearer = [] then Inl 401
           else (case verify bearer of None \<Rightarrow> Inl 403 | Some u \<Rightarrow> Inr u)))"


definition serve_post_usage :: "world \<Rightarrow> usage_body \<Rightarrow> server_state \<Rightarrow> usage_json reply \<times> server_state" where
  "serve_post_usage w b st =
     (case authenticateToken (jwt_verify w) (localStorage_token w) of
        Inl code \<Rightarrow> (Status code, st)
      | Inr u \<Rightarrow> post_usage (usage_fails w) u b (now_usage w) st)"














section \<open>Reading the ledger\<close>

text \<open>
  The sum of the recorded amounts of an account: over all its rows, over the rows logged
  by the administrative route, and over the others.
\<close>

definition ledger_sum :: "nat \<Rightarrow> server_state \<Rightarrow> int" where
  "ledger_sum i st =
     sum_list (map token_count (filter (\<lambda>r. log_user_id r = i) (usage_logs (db st))))"

definition topup_sum :: "nat \<Rightarrow> server_state \<Rightarrow> int" where
  "topup_sum i st =
     sum_list (map token_count (filter (\<lambda>r. log_user_id r = i \<and> feature_name r = Some ADMIN_TOPUP)
       (usage_logs (db st))))"

definition usage_sum :: "nat \<Rightarrow> server_state \<Rightarrow> int" where
  "usage_sum i st =
     sum_list (map token_count (filter (\<lambda>r. log_user_id r = i \<and> feature_name r \<noteq> Some ADMIN_TOPUP)
       (usage_logs (db st))))"

text \<open>
  The balance net of what the log records for the account: top-ups taken off, usage
  added back.
\<close>

definition net :: "nat \<Rightarrow> server_state \<Rightarrow> int option" where
  "net a st = map_option (\<lambda>g. g - topup_sum a st + usage_sum a st) (balance a st)"

text \<open>
  A history of the ledger: requests to the two routes that write it, each with the
  faults it meets, served one after the other.
\<close>

datatype op =
    Charge "db_call \<Rightarrow> bool" req_user usage_body int
  | Adjust "db_call \<Rightarrow> bool" req_user nat admin_body int

fun step :: "op \<Rightarrow> server_state \<Rightarrow> server_state" where
  "step (Charge fails u b now) st = snd (post_usage fails u b now st)"
| "step (Adjust fails u i b now) st = snd (put_admin_user fails u i b now st)"

fun run :: "op list \<Rightarrow> server_state \<Rightarrow> server_state" where
  "run [] st = st"
| "run (x # xs) st = run xs (step x st)"

text \<open>
  Histories in which no adjustment of account \<open>a\<close> asks for less than the balance it
  finds, and no charge of \<open>a\<close> is filed under the feature name of the administrative
  route.
\<close>

fun raising :: "nat \<Rightarrow> op list \<Rightarrow> server_state \<Rightarrow> bool" where
  "raising a [] st = True"
| "raising a (Charge fails u b now # xs) st =
     ((uid u = a \<longrightarrow> feature b \<noteq> Some ADMIN_TOPUP)
      \<and> raising a xs (step (Charge fails u b now) st))"
| "raising a (Adjust fails u i b now # xs) st =
     ((i = a \<longrightarrow> (case balance a st of None \<Rightarrow> True | Some t \<Rightarrow> t \<le> new_tokens b))
      \<and> raising a xs (step (Adjust fails u i b now) st))"

section \<open>Example data\<close>

definition ann :: user_row where
  "ann = \<lparr>user_id = 1, username = ''ann'', display_name = Some ''Ann'', role = Some ''user'',
      is_approved = Some True, expiration_date = None, contact_email = None, mobile = None,
      tokens = 1000, user_created_at = 5\<rparr>"

definition bob :: user_row where
  "bob = \<lparr>user_id = 2, username = ''bob'', display_name = Some ''Bob'', role = Some ''user'',
      is_approved = Some True, expiration_date = None, contact_email = None, mobile = None,
      tokens = 500, user_created_at = 6\<rparr>"

text \<open>Two accounts, one chat session owned by the first, nothing else.\<close>

definition example_state :: server_state where
  "example_state =
     \<lparr>db = \<lparr>users = [ann, bob], users_next_id = 3, images = [],
            chat_sessions = [\<lparr>session_id = ''s1'', session_user_id = 1, title = ''notes'',
               session_created_at = 10, updated_at = 10\<rparr>],
            chat_messages = [], chat_messages_next_id = 1, usage_logs = []\<rparr>,
      r2_objects = [], mockUsers = [], mockImages = [], mockChatSessions = [],
      mockChatMessages = [], mockUsageLogs = []\<rparr>"

definition ann_request :: req_user where
  "ann_request = \<lparr>uid = 1, urole = ''user''\<rparr>"

definition bob_request :: req_user where
  "bob_request = \<lparr>uid = 2, urole = ''user''\<rparr>"

definition admin_request :: req_user where
  "admin_request = \<lparr>uid = 9, urole = ''admin''\<rparr>"

text \<open>Only the commit rejects.\<close>

definition commit_fails :: "db_call \<Rightarrow> bool" where
  "commit_fails c = (c = Commit)"


text \<open>An administrative update of the second account that only changes its balance.\<close>

definition set_bob :: "int \<Rightarrow> admin_body" where
  "set_bob n = \<lparr>displayName = Some ''Bob'', new_role = Some ''user'', isApproved = Some True,
     expirationDate = None, contactEmail = None, new_mobile = None, new_tokens = n\<rparr>"







text \<open>A message of the second account for the session of the first.\<close>

definition bob_message :: message_body where
  "bob_message = \<lparr>body_session_id = ''s1'', body_role = ''user'', body_content = ''hello'',
     body_created_at = 20\<rparr>"


text \<open>
  Histories of the second account: a charge followed by a raise, and a raise followed by
  a cut (from 500 to 2000, then to 100).
\<close>

definition example_history :: "op list" where
  "example_history =
     [Charge no_fault bob_request \<lparr>feature = Some ''engine'', tokenCount = Some 30\<rparr> 77,
      Adjust no_fault admin_request 2 (set_bob 2000) 88]"

definition scenario_C :: "op list" where
  "scenario_C =
     [Adjust no_fault admin_request 2 (set_bob 2000) 88,
      Adjust no_fault admin_request 2 (set_bob 100) 89]"

section \<open>Facts about the tables\<close>

text \<open>
  The balance of an account is the balance column of the first row with its id; the
  statements of the two ledger routes change it as follows.
\<close>

lemma find_filter_hd:
  "find P xs = (case filter P xs of [] \<Rightarrow> None | x # _ \<Rightarrow> Some x)"
  by (induction xs) auto

lemma first_row_select:
  "first_row (select_tokens i d) =
     (case find (\<lambda>r. user_id r = i) (users d) of None \<Rightarrow> Inl Type_error | Some r \<Rightarrow> Inr (tokens r))"
  by (simp add: first_row_def select_tokens_def find_filter_hd split: list.splits)

lemma balance_find:
  "balance i st = map_option tokens (find (\<lambda>r. user_id r = i) (users (db st)))"
  by (simp add: balance_def select_tokens_def find_filter_hd split: list.splits)

lemma find_key: "find (\<lambda>r. user_id r = a) xs = Some r \<Longrightarrow> user_id r = a"
  by (induction xs) (auto split: if_splits)

lemma find_map_same_key:
  assumes "\<And>r. user_id (f r) = user_id r"
  shows "find (\<lambda>r. user_id r = a) (map f xs) = map_option f (find (\<lambda>r. user_id r = a) xs)"
  using assms by (induction xs) auto

lemma balance_deduct:
  "balance a (st\<lparr>db := deduct_tokens n i d\<rparr>) =
     (if a = i then map_option (\<lambda>t. t - n) (balance a (st\<lparr>db := d\<rparr>)) else balance a (st\<lparr>db := d\<rparr>))"
  unfolding balance_find deduct_tokens_def
  by (cases "find (\<lambda>r. user_id r = a) (users d)")
     (auto simp: find_map_same_key dest: find_key)

lemma balance_update_user:
  "balance a (st\<lparr>db := update_user i b d\<rparr>) =
     (if a = i then map_option (\<lambda>t. new_tokens b) (balance a (st\<lparr>db := d\<rparr>)) else balance a (st\<lparr>db := d\<rparr>))"
  unfolding balance_find update_user_def
  by (cases "find (\<lambda>r. user_id r = a) (users d)")
     (auto simp: find_map_same_key dest: find_key)

lemma balance_logs_irrelevant [simp]:
  "balance a (st\<lparr>db := d\<lparr>usage_logs := l\<rparr>\<rparr>) = balance a (st\<lparr>db := d\<rparr>)"
  by (simp add: balance_find)

lemma balance_db_same [simp]: "balance a (st\<lparr>db := db st\<rparr>) = balance a st"
  by (simp add: balance_find)

lemma insert_usage_log_balance:
  "insert_usage_log i f n now (db st) =
     (if \<not> fits_int n then Inl Out_of_range
      else (case balance i st of None \<Rightarrow> Inl Fk_violation
      | Some _ \<Rightarrow> Inr ((db st)\<lparr>usage_logs := usage_logs (db st) @
          [\<lparr>log_user_id = i, feature_name = f, token_count = n, log_created_at = now\<rparr>]\<rparr>)))"
  by (simp add: insert_usage_log_def balance_find split: option.splits)

lemma first_row_balance:
  "first_row (select_tokens i (db st)) =
     (case balance i st of None \<Rightarrow> Inl Type_error | Some t \<Rightarrow> Inr t)"
  by (simp add: first_row_def balance_def split: list.splits)

text \<open>The two routes, by what decides their outcome.\<close>

lemma post_usage_cases:
  "post_usage fails u b now st =
     (if fails GetConnection \<or> fails BeginTransaction \<or> fails (Query 1) \<or> fails (Query 2)
         \<or> fails (Query 3) \<or> fails Commit \<or> \<not> fits_int (or0 (tokenCount b))
      then (Status 500, st)
      else (case balance (uid u) st of
         None \<Rightarrow> (Status 500, st)
       | Some g \<Rightarrow> (Json (Success_remaining (Some (g - or0 (tokenCount b)))),
           st\<lparr>db := deduct_tokens (or0 (tokenCount b)) (uid u)
             ((db st)\<lparr>usage_logs := usage_logs (db st) @
                [\<lparr>log_user_id = uid u, feature_name = feature b,
                  token_count = or0 (tokenCount b), log_created_at = now\<rparr>]\<rparr>)\<rparr>)))"
proof (cases "balance (uid u) st")
  case None
  then show ?thesis
    by (simp add: post_usage_def useMockDb_def usage_transaction_def insert_usage_log_balance)
next
  case (Some g)
  let ?d1 = "(db st)\<lparr>usage_logs := usage_logs (db st) @
                [\<lparr>log_user_id = uid u, feature_name = feature b,
                  token_count = or0 (tokenCount b), log_created_at = now\<rparr>]\<rparr>"
  have "balance (uid u) (st\<lparr>db := deduct_tokens (or0 (tokenCount b)) (uid u) ?d1\<rparr>)
          = Some (g - or0 (tokenCount b))"
    using Some by (simp add: balance_deduct)
  then have "first_row (select_tokens (uid u) (deduct_tokens (or0 (tokenCount b)) (uid u) ?d1))
          = Inr (g - or0 (tokenCount b))"
    using first_row_balance [of "uid u" "st\<lparr>db := deduct_tokens (or0 (tokenCount b)) (uid u) ?d1\<rparr>"]
    by simp
  with Some show ?thesis
    by (simp add: post_usage_def useMockDb_def usage_transaction_def insert_usage_log_balance Let_def)
qed

lemma put_admin_user_cases:
  "put_admin_user fails u i b now st =
     (if urole u \<noteq> ''admin'' then (Status 403, st)
      else if fails GetConnection then (Rejected, st)
      else (case balance i st of
         None \<Rightarrow> (Status 500, st)
       | Some cur \<Rightarrow>
          (if fails BeginTransaction \<or> fails (Query 1) \<or> fails (Query 2) \<or> fails Commit
              \<or> (new_tokens b - cur > 0
                   \<and> (fails (Query 3) \<or> \<not> fits_int (new_tokens b - cur)))
           then (Status 500, st)
           else if new_tokens b - cur > 0 then
             (Json (), st\<lparr>db := (update_user i b (db st))\<lparr>usage_logs := usage_logs (db st) @
                [\<lparr>log_user_id = i, feature_name = Some ADMIN_TOPUP,
                  token_count = new_tokens b - cur, log_created_at = now\<rparr>]\<rparr>\<rparr>)
           else (Json (), st\<lparr>db := update_user i b (db st)\<rparr>))))"
proof (cases "balance i st")
  case None
  then show ?thesis
    by (simp add: put_admin_user_def admin_transaction_def first_row_balance)
next
  case (Some cur)
  have "balance i (st\<lparr>db := update_user i b (db st)\<rparr>) = Some (new_tokens b)"
    using Some by (simp add: balance_update_user)
  then have ins: "insert_usage_log i f n t (update_user i b (db st)) =
      (if \<not> fits_int n then Inl Out_of_range
       else Inr ((update_user i b (db st))\<lparr>usage_logs := usage_logs (db st) @
          [\<lparr>log_user_id = i, feature_name = f, token_count = n, log_created_at = t\<rparr>]\<rparr>))" for f n t
    using insert_usage_log_balance [of i f n t "st\<lparr>db := update_user i b (db st)\<rparr>"]
    by (simp add: update_user_def)
  show ?thesis using Some
    by (simp add: put_admin_user_def admin_transaction_def first_row_balance Let_def ins)
qed

lemma ann_balance: "balance (uid ann_request) example_state = Some 1000"
  by (simp add: balance_def select_tokens_def example_state_def ann_def bob_def ann_request_def)

lemma bob_balance: "balance 2 example_state = Some 500"
  by (simp add: balance_def select_tokens_def example_state_def ann_def bob_def)

lemma admin_is_admin: "urole admin_request = ''admin''"
  by (simp add: admin_request_def)

text \<open>How the statements of the two routes move the sums of the log.\<close>

lemma sums_deduct [simp]:
  "topup_sum a (st\<lparr>db := deduct_tokens n i d\<rparr>) = topup_sum a (st\<lparr>db := d\<rparr>)"
  "usage_sum a (st\<lparr>db := deduct_tokens n i d\<rparr>) = usage_sum a (st\<lparr>db := d\<rparr>)"
  by (simp_all add: topup_sum_def usage_sum_def deduct_tokens_def)

lemma sums_update_user [simp]:
  "topup_sum a (st\<lparr>db := update_user i b d\<rparr>) = topup_sum a (st\<lparr>db := d\<rparr>)"
  "usage_sum a (st\<lparr>db := update_user i b d\<rparr>) = usage_sum a (st\<lparr>db := d\<rparr>)"
  by (simp_all add: topup_sum_def usage_sum_def update_user_def)

lemma sums_append:
  "topup_sum a (st\<lparr>db := d\<lparr>usage_logs := usage_logs d @ [r]\<rparr>\<rparr>) =
     topup_sum a (st\<lparr>db := d\<rparr>)
       + (if log_user_id r = a \<and> feature_name r = Some ADMIN_TOPUP then token_count r else 0)"
  "usage_sum a (st\<lparr>db := d\<lparr>usage_logs := usage_logs d @ [r]\<rparr>\<rparr>) =
     usage_sum a (st\<lparr>db := d\<rparr>)
       + (if log_user_id r = a \<and> feature_name r \<noteq> Some ADMIN_TOPUP then token_count r else 0)"
  by (simp_all add: topup_sum_def usage_sum_def)

lemma sums_db_same [simp]:
  "topup_sum a (st\<lparr>db := db st\<rparr>) = topup_sum a st"
  "usage_sum a (st\<lparr>db := db st\<rparr>) = usage_sum a st"
  by (simp_all add: topup_sum_def usage_sum_def)

lemma sums_logs_of_update [simp]:
  "topup_sum a (st\<lparr>db := (update_user i b d)\<lparr>usage_logs := l\<rparr>\<rparr>) = topup_sum a (st\<lparr>db := d\<lparr>usage_logs := l\<rparr>\<rparr>)"
  "usage_sum a (st\<lparr>db := (update_user i b d)\<lparr>usage_logs := l\<rparr>\<rparr>) = usage_sum a (st\<lparr>db := d\<lparr>usage_logs := l\<rparr>\<rparr>)"
  by (simp_all add: topup_sum_def usage_sum_def)

lemma balance_update_user_logs [simp]:
  "balance a (st\<lparr>db := (update_user i b d)\<lparr>usage_logs := l\<rparr>\<rparr>) = balance a (st\<lparr>db := update_user i b d\<rparr>)"
  by (simp add: balance_find)

lemma charge_keeps_net:
  assumes "uid u = a \<longrightarrow> feature b \<noteq> Some ADMIN_TOPUP"
  shows "net a (snd (post_usage fails u b now st)) = net a st"
  using assms
  by (cases "balance a st")
     (auto simp: post_usage_cases net_def balance_deduct sums_append split: option.splits)

lemma adjust_keeps_net:
  assumes "i = a \<longrightarrow> (case balance a st of None \<Rightarrow> True | Some t \<Rightarrow> t \<le> new_tokens b)"
  shows "net a (snd (put_admin_user fails u i b now st)) = net a st"
  using assms
  by (cases "balance a st")
     (auto simp: put_admin_user_cases net_def balance_update_user sums_append split: option.splits)

lemma run_keeps_net: "raising a ops st \<Longrightarrow> net a (run ops st) = net a st"
proof (induction ops arbitrary: st)
  case Nil
  then show ?case by simp
next
  case (Cons x xs)
  show ?case
  proof (cases x)
    case (Charge fails u b now)
    with Cons.prems have "uid u = a \<longrightarrow> feature b \<noteq> Some ADMIN_TOPUP"
      and "raising a xs (step x st)" by simp_all
    then show ?thesis using Cons.IH [of "step x st"] Charge
      by (simp add: charge_keeps_net)
  next
    case (Adjust fails u i b now)
    with Cons.prems have "i = a \<longrightarrow> (case balance a st of None \<Rightarrow> True | Some t \<Rightarrow> t \<le> new_tokens b)"
      and "raising a xs (step x st)" by simp_all
    then show ?thesis using Cons.IH [of "step x st"] Adjust
      by (simp add: adjust_keeps_net)
  qed
qed

section \<open>The usage route charges what the client says\<close>




section \<open>The charge\<close>




section \<open>The administrative adjustment\<close>




section \<open>All or nothing\<close>

text \<open>
  C4, as the claim states it: for either operation the balance mutation and the record
  land together or not at all. Cutting the second account from 500 to 100 succeeds with
  the balance changed and no record appended: the handler inserts only when
  \<^verbatim>\<open>tokenChange > 0\<close>.
\<close>

theorem lowering_adjust_counterexample:
  "fst (put_admin_user no_fault admin_request 2 (set_bob 100) 88 example_state) = Json ()
   \<and> balance 2 example_state = Some 500
   \<and> balance 2 (snd (put_admin_user no_fault admin_request 2 (set_bob 100) 88 example_state))
       = Some 100
   \<and> usage_logs (db (snd (put_admin_user no_fault admin_request 2 (set_bob 100) 88 example_state)))
       = usage_logs (db example_state)"
  by (simp add: put_admin_user_cases admin_is_admin bob_balance no_fault_def balance_update_user)
     (simp add: set_bob_def update_user_def)

text \<open>
  C4, amended: each request is applied whole or not at all. Whatever database calls
  fail, a request to the usage route ends in one of two ways: an error answer (500) with
  the state as it was, or a 200 with the row appended and the balance of the account
  lowered by the amount, the new balance returned. A request to the administrative route
  ends with the state as it was (403 for a requester who is no administrator, no
  response when no connection could be taken, 500 for any failure inside the transaction
  or a missing account), or with a 200 and everything the request writes: the account's
  row updated to the requested balance and, exactly when the balance was raised, the row
  of the raise appended. An adjustment that does not raise the balance succeeds with
  the balance mutation alone.
\<close>

theorem ledger_writes_all_or_nothing:
  "(post_usage fails u b now st = (Status 500, st)
     \<or> (\<exists>g. balance (uid u) st = Some g
          \<and> post_usage fails u b now st =
             (Json (Success_remaining (Some (g - or0 (tokenCount b)))),
              st\<lparr>db := (db st)
                \<lparr>users := map (\<lambda>r. if user_id r = uid u
                     then r\<lparr>tokens := tokens r - or0 (tokenCount b)\<rparr> else r) (users (db st)),
                 usage_logs := usage_logs (db st) @
                    [\<lparr>log_user_id = uid u, feature_name = feature b,
                      token_count = or0 (tokenCount b), log_created_at = now\<rparr>]\<rparr>\<rparr>)
          \<and> balance (uid u) (snd (post_usage fails u b now st))
               = Some (g - or0 (tokenCount b))))
   \<and> (put_admin_user fails2 v i c now2 st = (Status 403, st)
     \<or> put_admin_user fails2 v i c now2 st = (Rejected, st)
     \<or> put_admin_user fails2 v i c now2 st = (Status 500, st)
     \<or> (\<exists>cur. balance i st = Some cur
          \<and> put_admin_user fails2 v i c now2 st =
            (Json (),
             st\<lparr>db := (db st)
               \<lparr>users := map (\<lambda>r. if user_id r = i
                    then r\<lparr>display_name := displayName c, role := new_role c,
                           is_approved := isApproved c, expiration_date := expirationDate c,
                           contact_email := contactEmail c, mobile := new_mobile c,
                           tokens := new_tokens c\<rparr>
                    else r) (users (db st)),
                usage_logs :=
                  (if new_tokens c - cur > 0
                   then usage_logs (db st) @
                     [\<lparr>log_user_id = i, feature_name = Some ADMIN_TOPUP,
                       token_count = new_tokens c - cur, log_created_at = now2\<rparr>]
                   else usage_logs (db st))\<rparr>\<rparr>)
          \<and> balance i (snd (put_admin_user fails2 v i c now2 st)) = Some (new_tokens c)))"
proof -
  have usage: "post_usage fails u b now st = (Status 500, st)
     \<or> (\<exists>g. balance (uid u) st = Some g
          \<and> post_usage fails u b now st =
             (Json (Success_remaining (Some (g - or0 (tokenCount b)))),
              st\<lparr>db := (db st)
                \<lparr>users := map (\<lambda>r. if user_id r = uid u
                     then r\<lparr>tokens := tokens r - or0 (tokenCount b)\<rparr> else r) (users (db st)),
                 usage_logs := usage_logs (db st) @
                    [\<lparr>log_user_id = uid u, feature_name = feature b,
                      token_count = or0 (tokenCount b), log_created_at = now\<rparr>]\<rparr>\<rparr>)
          \<and> balance (uid u) (snd (post_usage fails u b now st))
               = Some (g - or0 (tokenCount b)))"
    by (cases "balance (uid u) st")
       (simp_all add: post_usage_cases balance_deduct, simp add: deduct_tokens_def)
  have admin: "put_admin_user fails2 v i c now2 st = (Status 403, st)
     \<or> put_admin_user fails2 v i c now2 st = (Rejected, st)
     \<or> put_admin_user fails2 v i c now2 st = (Status 500, st)
     \<or> (\<exists>cur. balance i st = Some cur
          \<and> put_admin_user fails2 v i c now2 st =
            (Json (),
             st\<lparr>db := (db st)
               \<lparr>users := map (\<lambda>r. if user_id r = i
                    then r\<lparr>display_name := displayName c, role := new_role c,
                           is_approved := isApproved c, expiration_date := expirationDate c,
                           contact_email := contactEmail c, mobile := new_mobile c,
                           tokens := new_tokens c\<rparr>
                    else r) (users (db st)),
                usage_logs :=
                  (if new_tokens c - cur > 0
                   then usage_logs (db st) @
                     [\<lparr>log_user_id = i, feature_name = Some ADMIN_TOPUP,
                       token_count = new_tokens c - cur, log_created_at = now2\<rparr>]
                   else usage_logs (db st))\<rparr>\<rparr>)
          \<and> balance i (snd (put_admin_user fails2 v i c now2 st)) = Some (new_tokens c))"
    by (cases "balance i st")
       (simp_all add: put_admin_user_cases balance_update_user, simp add: update_user_def)
  from usage admin show ?thesis by (rule conjI)
qed

theorem ledger_writes_all_or_nothing_witness:
  "post_usage commit_fails ann_request \<lparr>feature = Some ''engine'', tokenCount = Some 150\<rparr>
      77 example_state = (Status 500, example_state)
   \<and> put_admin_user commit_fails admin_request 2 (set_bob 2000) 88 example_state
      = (Status 500, example_state)"
  using ledger_writes_all_or_nothing [of commit_fails ann_request
      "\<lparr>feature = Some ''engine'', tokenCount = Some 150\<rparr>" 77 example_state
      commit_fails admin_request 2 "set_bob 2000" 88]
  by (simp add: post_usage_cases put_admin_user_cases ann_balance bob_balance
      admin_request_def set_bob_def commit_fails_def)

section \<open>Ledger conservation\<close>

text \<open>
  C1, as the claim states it: the balance is the initial grant plus the sum of the
  recorded amounts. Raising the second account from 500 to 2000 and then cutting it to
  100 leaves one row of 1500 in the log and a balance of 100, not 500 + 1500: the
  handler logs only when \<^verbatim>\<open>tokenChange > 0\<close> ("If tokens were added, log it").
\<close>

theorem ledger_conservation_counterexample:
  "balance 2 example_state = Some 500
   \<and> balance 2 (run scenario_C example_state) = Some 100
   \<and> ledger_sum 2 (run scenario_C example_state) = 1500
   \<and> balance 2 (run scenario_C example_state)
        \<noteq> Some (500 + ledger_sum 2 (run scenario_C example_state))"
  by code_simp

text \<open>
  C1, amended: for an account that starts with its grant and no rows, after any history
  of charges and adjustments (failing ones included) in which no adjustment of the
  account asks for less than the balance it finds and no charge of the account is filed
  under the feature name of the administrative route, the balance is the grant plus the
  amounts of the account's top-up rows minus the amounts of its other rows.
\<close>

theorem ledger_conservation_without_lowering:
  assumes "balance a st = Some grant"
    and "filter (\<lambda>r. log_user_id r = a) (usage_logs (db st)) = []"
    and "raising a ops st"
  shows "balance a (run ops st)
           = Some (grant + topup_sum a (run ops st) - usage_sum a (run ops st))"
proof -
  have "filter (\<lambda>r. log_user_id r = a \<and> P r) (usage_logs (db st)) = []" for P
    using assms(2) by (induction "usage_logs (db st)") (auto simp: filter_empty_conv)
  then have zero: "topup_sum a st = 0" "usage_sum a st = 0"
    by (simp_all add: topup_sum_def usage_sum_def)
  have "net a (run ops st) = net a st"
    using assms(3) by (rule run_keeps_net)
  with assms(1) zero show ?thesis
    by (auto simp: net_def)
qed

lemma no_rows_yet: "filter (\<lambda>r. log_user_id r = 2) (usage_logs (db example_state)) = []"
  by (simp add: example_state_def)

lemma example_history_raising: "raising 2 example_history example_state"
  by (simp add: example_history_def post_usage_cases no_fault_def bob_request_def bob_balance
      balance_deduct or0_def set_bob_def ADMIN_TOPUP_def fits_int_def)

theorem ledger_conservation_without_lowering_witness:
  "balance 2 (run example_history example_state)
     = Some (500 + topup_sum 2 (run example_history example_state)
                 - usage_sum 2 (run example_history example_state))"
  using ledger_conservation_without_lowering [OF bob_balance no_rows_yet example_history_raising]
  by simp

section \<open>An unreachable store at start-up\<close>




section \<open>Appending to another account's session\<close>

text \<open>
  C7. The claim asks that a requester who does not own a session is refused both the
  listing of its messages and the appending of one. For the session of the first
  account and a request of the second, the listing is refused with 403, but the append
  is answered 200 and the message is stored: POST /api/chat/messages never compares the
  session's owner with \<^verbatim>\<open>req.user.id\<close>, as GET /api/chat/messages/:sessionId and
  the session routes do.
\<close>

theorem foreign_append_is_accepted:
  "map session_user_id (chat_sessions (db example_state)) = [1]
   \<and> uid bob_request = 2
   \<and> fst (get_chat_messages no_fault bob_request ''s1'' example_state) = Status 403
   \<and> fst (post_chat_message no_fault bob_request bob_message 21 example_state) = Json ()
   \<and> chat_messages (db example_state) = []
   \<and> chat_messages (db (snd (post_chat_message no_fault bob_request bob_message 21 example_state)))
       = [\<lparr>message_id = 1, msg_session_id = ''s1'', msg_role = ''user'', content = ''hello'',
           msg_created_at = 20\<rparr>]"
  by (simp add: get_chat_messages_def post_chat_message_def useMockDb_def no_fault_def
      insert_chat_message_def touch_session_def example_state_def bob_request_def bob_message_def)

section \<open>The pipeline stops at the first failure\<close>





section \<open>Lifetimes of signed URLs\<close>










section \<open>The charge follows the save\<close>

lemma upload_and_sign_db [simp]:
  "db (snd (upload_and_sign bucket r2f key data st)) = db st"
  by (simp add: upload_and_sign_def Let_def split: option.splits)






lemma post_usage_images [simp]:
  "images (db (snd (post_usage fails u b now st))) = images (db st)"
  by (simp add: post_usage_cases deduct_tokens_def split: option.splits)

lemma serve_post_usage_images [simp]:
  "images (db (snd (serve_post_usage w b st))) = images (db st)"
  by (simp add: serve_post_usage_def split: sum.splits)



















end
